theory Spec2Isabelle
  imports Complex_Main "HOL-Library.Log_Nat" "HOL-Library.AList"
begin

section \<open>Values, files and the environment\<close>

text \<open>
  The program stores every progress entity as a JSON document and works on whatever
  \<^verbatim>\<open>JSON.parse\<close> returns: the TypeScript annotation \<^verbatim>\<open>as ProgressState\<close> is an
  unchecked cast. A state is therefore modelled as the JavaScript value it is, an object
  with named properties, and not as a record whose fields are always present.

  Numbers are the integers (the counters and millisecond timestamps of the program, exact
  in binary64 below \<open>2^53\<close>); fractions are outside the model. The one inexact
  computation of the program, the percentage, is modelled with binary64 rounding below.
  A property that is absent reads as \<open>None\<close> (JavaScript's \<^verbatim>\<open>undefined\<close>). Strings are
  lists of code units.
\<close>

datatype jsval =
    JNull
  | JBool bool
  | JNum int
  | JStr string
  | JArr "jsval list"
  | JObj "(string \<times> jsval) list"

text \<open>
  A file holds either text that \<^verbatim>\<open>JSON.parse\<close> turns into a value, or text on which it
  throws. \<^verbatim>\<open>JSON.stringify\<close> followed by \<^verbatim>\<open>JSON.parse\<close> is the identity on the
  values above, so a written file is modelled by the value written.
\<close>

datatype content = Json jsval | Garbage

text \<open>
  The environment of one call: the files, the paths on which a write, a rename onto them
  or an unlink fails, the reading of \<^verbatim>\<open>Date.now()\<close>, the hexadecimal text of
  \<^verbatim>\<open>randomBytes(8)\<close> and \<^verbatim>\<open>randomBytes(4)\<close>, and \<^verbatim>\<open>os.tmpdir()\<close>. Within one call
  every reading of the clock and of the random source returns the same value; between
  calls the environment may change them.
\<close>

record world =
  files :: "string \<Rightarrow> content option"
  unwritable :: "string set"
  clock :: int
  rnd8 :: string
  rnd4 :: string
  tmpdir :: string

definition existsSync :: "world \<Rightarrow> string \<Rightarrow> bool" where
  "existsSync w p = (files w p \<noteq> None)"

definition writeFileSync :: "world \<Rightarrow> string \<Rightarrow> content \<Rightarrow> world option" where
  "writeFileSync w p c =
     (if p \<in> unwritable w then None else Some (w\<lparr>files := (files w)(p \<mapsto> c)\<rparr>))"

definition renameSync :: "world \<Rightarrow> string \<Rightarrow> string \<Rightarrow> world option" where
  "renameSync w src dst =
     (if dst \<in> unwritable w \<or> files w src = None then None
      else if src = dst then Some w
      else Some (w\<lparr>files := ((files w)(dst := files w src))(src := None)\<rparr>))"

definition unlinkSync :: "world \<Rightarrow> string \<Rightarrow> world option" where
  "unlinkSync w p =
     (if p \<in> unwritable w \<or> files w p = None then None
      else Some (w\<lparr>files := (files w)(p := None)\<rparr>))"

text \<open>
  \<^verbatim>\<open>path.join(dir, name)\<close> for a directory in normal form and a name without a
  separator, where it only puts the separator between the two.
\<close>

definition join :: "string \<Rightarrow> string \<Rightarrow> string" where
  "join dir name = dir @ ''/'' @ name"

subsection \<open>Property access\<close>

text \<open>
  Reading a property of \<^verbatim>\<open>null\<close> throws a \<^verbatim>\<open>TypeError\<close> (the outer \<open>None\<close>); reading
  a named property of an object gives its value or \<^verbatim>\<open>undefined\<close> (the inner \<open>None\<close>);
  the other values have none of the property names the program uses.
\<close>

fun get_prop :: "jsval \<Rightarrow> string \<Rightarrow> jsval option option" where
  "get_prop JNull k = None"
| "get_prop (JObj kvs) k = Some (map_of kvs k)"
| "get_prop v k = Some None"

fun is_number :: "jsval option \<Rightarrow> bool" where
  "is_number (Some (JNum n)) = True"
| "is_number v = False"

fun num_of :: "jsval option \<Rightarrow> int" where
  "num_of (Some (JNum n)) = n"
| "num_of v = 0"

text \<open>Assignment \<^verbatim>\<open>obj.k = v\<close> on an object keeps the position of an existing key.\<close>

fun set_prop :: "jsval \<Rightarrow> string \<Rightarrow> jsval \<Rightarrow> jsval" where
  "set_prop (JObj kvs) k v = JObj (AList.update k v kvs)"
| "set_prop x k v = x"

definition field_of :: "jsval \<Rightarrow> string \<Rightarrow> jsval option" where
  "field_of v k = (case get_prop v k of Some r \<Rightarrow> r | None \<Rightarrow> None)"

section \<open>Results and validation\<close>

text \<open>
  \<^verbatim>\<open>Result<T>\<close> is \<^verbatim>\<open>{ok: true, value} | {ok: false, error: string}\<close>. Each error
  constructor stands for one message of the source.
\<close>

datatype error =
    IdEmpty
  | IdTooLong
  | IdBadChars
  | FilePathEmpty
  | FilePathNullByte
  | MessageTooLong
  | TotalInvalid
  | IncrementNegative
  | CurrentNegative
  | FileMissing
  | InvalidFormat
  | ReadFailed
  | WriteFailed
  | ClearFailed
  | TrackerNotFound string
  | MultiNotInitialized
  | MultiReadFailed

type_synonym 'a result = "error + 'a"

definition MAX_MESSAGE_LENGTH :: nat where
  "MAX_MESSAGE_LENGTH = 10000"

definition id_chars :: "char set" where
  "id_chars = set ''abcdefghijklmnopqrstuvwxyzABCDEFGHIJKLMNOPQRSTUVWXYZ0123456789_-''"

definition validateId :: "string \<Rightarrow> string result" where
  "validateId ident =
     (if ident = [] then Inl IdEmpty
      else if length ident > 255 then Inl IdTooLong
      else if \<not> list_all (\<lambda>c. c \<in> id_chars) ident then Inl IdBadChars
      else Inr ident)"

definition validateFilePath :: "string \<Rightarrow> string result" where
  "validateFilePath filePath =
     (if filePath = [] then Inl FilePathEmpty
      else if CHR 0x00 \<in> set filePath then Inl FilePathNullByte
      else Inr filePath)"

definition validateMessage :: "string \<Rightarrow> string result" where
  "validateMessage message =
     (if length message > MAX_MESSAGE_LENGTH then Inl MessageTooLong else Inr message)"

text \<open>\<^verbatim>\<open>ProgressConfig\<close>: both fields optional.\<close>

record ProgressConfig =
  cfg_id :: "string option"
  cfg_filePath :: "string option"

text \<open>
  A string is truthy when it is present and not empty; \<open>or_else s d\<close> is \<^verbatim>\<open>s || d\<close>.
\<close>

fun truthy :: "string option \<Rightarrow> bool" where
  "truthy None = False"
| "truthy (Some s) = (s \<noteq> [])"

fun or_else :: "string option \<Rightarrow> string \<Rightarrow> string" where
  "or_else None d = d"
| "or_else (Some s) d = (if s = [] then d else s)"

definition getProgressFilePath :: "world \<Rightarrow> ProgressConfig \<Rightarrow> string result" where
  "getProgressFilePath w config =
     (if truthy (cfg_filePath config) then
        (case validateFilePath (or_else (cfg_filePath config) []) of
           Inl e \<Rightarrow> Inl e
         | Inr _ \<Rightarrow> Inr (or_else (cfg_filePath config) []))
      else
        (let ident = or_else (cfg_id config) ''default'' in
         case validateId ident of
           Inl e \<Rightarrow> Inl e
         | Inr _ \<Rightarrow> Inr (join (tmpdir w) (''progress-'' @ ident @ ''.json''))))"

section \<open>The atomic store\<close>

text \<open>
  Write to a temporary path beside the target, then rename onto the target. Any exception
  is caught and returned as an error; a failed rename leaves the temporary file behind.
\<close>

definition tempPath :: "world \<Rightarrow> string \<Rightarrow> string" where
  "tempPath w filePath = filePath @ ''.tmp.'' @ rnd8 w"

definition writeProgressAtomic :: "world \<Rightarrow> string \<Rightarrow> jsval \<Rightarrow> unit result \<times> world" where
  "writeProgressAtomic w filePath state =
     (case writeFileSync w (tempPath w filePath) (Json state) of
        None \<Rightarrow> (Inl WriteFailed, w)
      | Some w1 \<Rightarrow>
          (case renameSync w1 (tempPath w filePath) filePath of
             None \<Rightarrow> (Inl WriteFailed, w1)
           | Some w2 \<Rightarrow> (Inr (), w2)))"

definition readProgress :: "world \<Rightarrow> string \<Rightarrow> jsval result" where
  "readProgress w filePath =
     (case files w filePath of
        None \<Rightarrow> Inl FileMissing
      | Some Garbage \<Rightarrow> Inl ReadFailed
      | Some (Json state) \<Rightarrow>
          (case get_prop state ''total'' of
             None \<Rightarrow> Inl ReadFailed
           | Some tot \<Rightarrow>
               if \<not> is_number tot \<or> \<not> is_number (field_of state ''current'')
               then Inl InvalidFormat
               else Inr state))"

section \<open>The percentage\<close>

text \<open>
  \<^verbatim>\<open>Math.round((current / total) * 100)\<close> is computed in binary64: the quotient is
  rounded to the nearest double (ties to even), so is the product, and \<^verbatim>\<open>Math.round\<close>
  takes the nearest integer of that double, ties upwards. \<open>round_double\<close> is that rounding
  on the normal range, which the quotient of two integers below \<open>2^53\<close> never leaves.
\<close>

definition round_half_even :: "rat \<Rightarrow> int" where
  "round_half_even m =
     (let f = \<lfloor>m\<rfloor>; d = m - of_int f in
      if d < 1 / 2 then f else if d > 1 / 2 then f + 1 else if even f then f else f + 1)"

definition floor_log2 :: "rat \<Rightarrow> int" where
  "floor_log2 a =
     (let (p, q) = quotient_of a; e0 = bitlen p - bitlen q in
      if 2 powi e0 \<le> a then e0 else e0 - 1)"

definition round_double :: "rat \<Rightarrow> rat" where
  "round_double x =
     (if x = 0 then 0
      else let a = \<bar>x\<bar>; ulp = 2 powi (floor_log2 a - 52) in
           sgn x * of_int (round_half_even (a / ulp)) * ulp)"

definition Math_round :: "rat \<Rightarrow> int" where
  "Math_round x = \<lfloor>x + 1 / 2\<rfloor>"

text \<open>
  With \<open>total = 0\<close> the quotient is \<^verbatim>\<open>NaN\<close> or infinite, which \<^verbatim>\<open>JSON.stringify\<close>
  writes as \<^verbatim>\<open>null\<close>; the model represents that number by \<open>JNull\<close>.
\<close>

definition js_percentage :: "int \<Rightarrow> int \<Rightarrow> jsval" where
  "js_percentage cur tot =
     (if tot = 0 then JNull
      else JNum (Math_round (round_double (round_double (of_int cur / of_int tot) * 100))))"

section \<open>The single tracker\<close>

text \<open>
  Every operation takes the environment and returns its result with the environment it
  leaves. An optional message is \<open>None\<close> when the caller passes none.
\<close>

definition init :: "world \<Rightarrow> int \<Rightarrow> string \<Rightarrow> ProgressConfig \<Rightarrow> jsval result \<times> world" where
  "init w tot message config =
     (if tot \<le> 0 then (Inl TotalInvalid, w)
      else
        let state = JObj
              [(''total'', JNum tot),
               (''current'', JNum 0),
               (''message'', JStr message),
               (''percentage'', JNum 0),
               (''startTime'', JNum (clock w)),
               (''updatedTime'', JNum (clock w)),
               (''complete'', JBool False)]
        in (case getProgressFilePath w config of
              Inl e \<Rightarrow> (Inl e, w)
            | Inr filePath \<Rightarrow>
                (case writeProgressAtomic w filePath state of
                   (Inl e, w') \<Rightarrow> (Inl e, w')
                 | (Inr _, w') \<Rightarrow> (Inr state, w'))))"

definition increment ::
  "world \<Rightarrow> int \<Rightarrow> string option \<Rightarrow> ProgressConfig \<Rightarrow> jsval result \<times> world" where
  "increment w amount message config =
     (if amount < 0 then (Inl IncrementNegative, w)
      else (case getProgressFilePath w config of
        Inl e \<Rightarrow> (Inl e, w)
      | Inr filePath \<Rightarrow>
          (case readProgress w filePath of
             Inl e \<Rightarrow> (Inl e, w)
           | Inr state \<Rightarrow>
               let s1 = set_prop state ''current''
                          (JNum (min (num_of (field_of state ''current'') + amount)
                                     (num_of (field_of state ''total''))));
                   s2 = set_prop s1 ''percentage''
                          (js_percentage (num_of (field_of s1 ''current''))
                                         (num_of (field_of s1 ''total'')));
                   s3 = set_prop s2 ''updatedTime'' (JNum (clock w));
                   s4 = (if truthy message
                         then set_prop s3 ''message'' (JStr (or_else message []))
                         else s3);
                   s5 = (if num_of (field_of s4 ''current'') \<ge> num_of (field_of s4 ''total'')
                         then set_prop s4 ''complete'' (JBool True)
                         else s4)
               in (case writeProgressAtomic w filePath s5 of
                     (Inl e, w') \<Rightarrow> (Inl e, w')
                   | (Inr _, w') \<Rightarrow> (Inr s5, w')))))"

definition setFn ::
  "world \<Rightarrow> int \<Rightarrow> string option \<Rightarrow> ProgressConfig \<Rightarrow> jsval result \<times> world" where
  "setFn w cur message config =
     (if cur < 0 then (Inl CurrentNegative, w)
      else (case getProgressFilePath w config of
        Inl e \<Rightarrow> (Inl e, w)
      | Inr filePath \<Rightarrow>
          (case readProgress w filePath of
             Inl e \<Rightarrow> (Inl e, w)
           | Inr state \<Rightarrow>
               let s1 = set_prop state ''current''
                          (JNum (min cur (num_of (field_of state ''total''))));
                   s2 = set_prop s1 ''percentage''
                          (js_percentage (num_of (field_of s1 ''current''))
                                         (num_of (field_of s1 ''total'')));
                   s3 = set_prop s2 ''updatedTime'' (JNum (clock w));
                   s4 = (if truthy message
                         then set_prop s3 ''message'' (JStr (or_else message []))
                         else s3);
                   s5 = (if num_of (field_of s4 ''current'') \<ge> num_of (field_of s4 ''total'')
                         then set_prop s4 ''complete'' (JBool True)
                         else s4)
               in (case writeProgressAtomic w filePath s5 of
                     (Inl e, w') \<Rightarrow> (Inl e, w')
                   | (Inr _, w') \<Rightarrow> (Inr s5, w')))))"

definition finish :: "world \<Rightarrow> string option \<Rightarrow> ProgressConfig \<Rightarrow> jsval result \<times> world" where
  "finish w message config =
     (case getProgressFilePath w config of
        Inl e \<Rightarrow> (Inl e, w)
      | Inr filePath \<Rightarrow>
          (case readProgress w filePath of
             Inl e \<Rightarrow> (Inl e, w)
           | Inr state \<Rightarrow>
               let s1 = set_prop state ''current'' (JNum (num_of (field_of state ''total'')));
                   s2 = set_prop s1 ''percentage'' (JNum 100);
                   s3 = set_prop s2 ''complete'' (JBool True);
                   s4 = set_prop s3 ''updatedTime'' (JNum (clock w));
                   s5 = (if truthy message
                         then set_prop s4 ''message'' (JStr (or_else message []))
                         else s4)
               in (case writeProgressAtomic w filePath s5 of
                     (Inl e, w') \<Rightarrow> (Inl e, w')
                   | (Inr _, w') \<Rightarrow> (Inr s5, w'))))"

definition getFn :: "world \<Rightarrow> ProgressConfig \<Rightarrow> jsval result" where
  "getFn w config =
     (case getProgressFilePath w config of
        Inl e \<Rightarrow> Inl e
      | Inr filePath \<Rightarrow> readProgress w filePath)"

definition clearFn :: "world \<Rightarrow> ProgressConfig \<Rightarrow> unit result \<times> world" where
  "clearFn w config =
     (case getProgressFilePath w config of
        Inl e \<Rightarrow> (Inl e, w)
      | Inr filePath \<Rightarrow>
          if existsSync w filePath
          then (case unlinkSync w filePath of
                  None \<Rightarrow> (Inl ClearFailed, w)
                | Some w' \<Rightarrow> (Inr (), w'))
          else (Inr (), w))"

section \<open>The tracker class\<close>

text \<open>
  \<^verbatim>\<open>ProgressTracker\<close> keeps the configuration and forwards every method to the functions
  above. Its constructor initialises the file and throws when that fails.
\<close>

datatype exn = InitError error | TypeError | FsError

datatype 'a outcome = Return 'a | Throw exn

record ProgressTrackerConfig =
  ptc_total :: int
  ptc_message :: string
  ptc_id :: "string option"
  ptc_filePath :: "string option"

record ProgressTracker =
  pt_config :: ProgressConfig

definition PT_new :: "world \<Rightarrow> ProgressTrackerConfig \<Rightarrow> ProgressTracker outcome \<times> world" where
  "PT_new w config =
     (let c = \<lparr>cfg_id = ptc_id config, cfg_filePath = ptc_filePath config\<rparr> in
      case init w (ptc_total config) (ptc_message config) c of
        (Inl e, w') \<Rightarrow> (Throw (InitError e), w')
      | (Inr _, w') \<Rightarrow> (Return \<lparr>pt_config = c\<rparr>, w'))"



definition PT_done :: "world \<Rightarrow> ProgressTracker \<Rightarrow> string option \<Rightarrow> jsval result \<times> world" where
  "PT_done w t message = finish w message (pt_config t)"

definition PT_get :: "world \<Rightarrow> ProgressTracker \<Rightarrow> jsval result" where
  "PT_get w t = getFn w (pt_config t)"

definition PT_clear :: "world \<Rightarrow> ProgressTracker \<Rightarrow> unit result \<times> world" where
  "PT_clear w t = clearFn w (pt_config t)"

section \<open>The group registry\<close>

record MultiProgressConfig =
  mpc_id :: "string option"
  mpc_filePath :: "string option"

record MultiProgressTrackerConfig =
  mptc_total :: int
  mptc_message :: string
  mptc_trackerId :: "string option"

text \<open>
  The registry object: its identifier, the path of the aggregate file and the map of the
  handles it has seen, in insertion order. Methods that change the map return the object.
\<close>

record MultiProgress =
  mp_id :: string
  mp_filePath :: string
  mp_trackers :: "(string \<times> ProgressTracker) list"

definition readState :: "world \<Rightarrow> MultiProgress \<Rightarrow> jsval result" where
  "readState w m =
     (case files w (mp_filePath m) of
        None \<Rightarrow> Inl MultiNotInitialized
      | Some Garbage \<Rightarrow> Inl MultiReadFailed
      | Some (Json state) \<Rightarrow> Inr state)"

text \<open>
  \<^verbatim>\<open>writeState\<close> does not catch: after removing its temporary file it throws the
  error again.
\<close>

definition stateTempPath :: "world \<Rightarrow> MultiProgress \<Rightarrow> string" where
  "stateTempPath w m = mp_filePath m @ ''.'' @ rnd8 w @ ''.tmp''"

definition writeState :: "world \<Rightarrow> MultiProgress \<Rightarrow> jsval \<Rightarrow> unit outcome \<times> world" where
  "writeState w m state =
     (let tmp = stateTempPath w m;
          cleanup = (\<lambda>w'. if existsSync w' tmp
                          then (case unlinkSync w' tmp of None \<Rightarrow> w' | Some w'' \<Rightarrow> w'')
                          else w')
      in case writeFileSync w tmp (Json state) of
           None \<Rightarrow> (Throw FsError, cleanup w)
         | Some w1 \<Rightarrow>
             (case renameSync w1 tmp (mp_filePath m) of
                None \<Rightarrow> (Throw FsError, cleanup w1)
              | Some w2 \<Rightarrow> (Return (), w2)))"

definition MP_new :: "world \<Rightarrow> MultiProgressConfig \<Rightarrow> MultiProgress outcome \<times> world" where
  "MP_new w config =
     (let ident = or_else (mpc_id config) ''default'';
          m = \<lparr>mp_id = ident,
               mp_filePath = or_else (mpc_filePath config)
                               (join (tmpdir w) (''progress-multi-'' @ ident @ ''.json'')),
               mp_trackers = []\<rparr>
      in if \<not> existsSync w (mp_filePath m)
         then (case writeState w m
                      (JObj [(''trackers'', JObj []),
                             (''meta'', JObj [(''created'', JNum (clock w)),
                                              (''updated'', JNum (clock w))])]) of
                 (Throw e, w') \<Rightarrow> (Throw e, w')
               | (Return _, w') \<Rightarrow> (Return m, w'))
         else (Return m, w))"

text \<open>Decimal text of a number, as a template literal prints it.\<close>

fun decimal :: "nat \<Rightarrow> string" where
  "decimal n =
     (if n < 10 then [char_of (48 + n)] else decimal (n div 10) @ [char_of (48 + n mod 10)])"

definition show_int :: "int \<Rightarrow> string" where
  "show_int i = (if i < 0 then ''-'' @ decimal (nat (- i)) else decimal (nat i))"

definition generateTrackerId :: "world \<Rightarrow> string" where
  "generateTrackerId w = ''tracker-'' @ show_int (clock w) @ ''-'' @ rnd4 w"

text \<open>
  The nested assignments on the parsed aggregate. \<^verbatim>\<open>value.trackers[id] = st\<close> throws a
  \<^verbatim>\<open>TypeError\<close> when \<^verbatim>\<open>value\<close> is \<^verbatim>\<open>null\<close> or when \<^verbatim>\<open>value.trackers\<close> is absent,
  \<^verbatim>\<open>null\<close> or a primitive (module code is strict). A named property set on an array is
  not written by \<^verbatim>\<open>JSON.stringify\<close>, so there the file content stays as it is (exact for
  keys that are not array indices).
\<close>

fun assign_in :: "jsval \<Rightarrow> string \<Rightarrow> string \<Rightarrow> jsval \<Rightarrow> jsval option" where
  "assign_in (JObj kvs) outer k v =
     (case map_of kvs outer of
        Some (JObj inner) \<Rightarrow> Some (JObj (AList.update outer (JObj (AList.update k v inner)) kvs))
      | Some (JArr xs) \<Rightarrow> Some (JObj kvs)
      | _ \<Rightarrow> None)"
| "assign_in x outer k v = None"

text \<open>
  \<^verbatim>\<open>delete value.trackers[id]\<close> throws only when \<^verbatim>\<open>value\<close> is \<^verbatim>\<open>null\<close> or has no
  \<^verbatim>\<open>trackers\<close>, or when \<^verbatim>\<open>value.trackers\<close> is \<^verbatim>\<open>null\<close>. On a primitive it does nothing,
  and on an array it leaves the content as it is (exact for keys that are not array
  indices).
\<close>

fun delete_in :: "jsval \<Rightarrow> string \<Rightarrow> string \<Rightarrow> jsval option" where
  "delete_in (JObj kvs) outer k =
     (case map_of kvs outer of
        Some (JObj inner) \<Rightarrow> Some (JObj (AList.update outer (JObj (AList.delete k inner)) kvs))
      | Some JNull \<Rightarrow> None
      | None \<Rightarrow> None
      | Some x \<Rightarrow> Some (JObj kvs))"
| "delete_in JNull outer k = None"
| "delete_in x outer k = None"

definition MP_add ::
  "world \<Rightarrow> MultiProgress \<Rightarrow> MultiProgressTrackerConfig
     \<Rightarrow> ProgressTracker outcome \<times> MultiProgress \<times> world" where
  "MP_add w m config =
     (let trackerId = or_else (mptc_trackerId config) (generateTrackerId w) in
      case PT_new w \<lparr>ptc_total = mptc_total config, ptc_message = mptc_message config,
                     ptc_id = Some (mp_id m @ ''-'' @ trackerId), ptc_filePath = None\<rparr> of
        (Throw e, w1) \<Rightarrow> (Throw e, m, w1)
      | (Return tracker, w1) \<Rightarrow>
          (let m1 = m\<lparr>mp_trackers := AList.update trackerId tracker (mp_trackers m)\<rparr> in
           case readState w1 m1 of
             Inl _ \<Rightarrow> (Return tracker, m1, w1)
           | Inr v \<Rightarrow>
               (case PT_get w1 tracker of
                  Inl _ \<Rightarrow> (Return tracker, m1, w1)
                | Inr trackerState \<Rightarrow>
                    (case assign_in v ''trackers'' trackerId trackerState of
                       None \<Rightarrow> (Throw TypeError, m1, w1)
                     | Some v1 \<Rightarrow>
                         (case assign_in v1 ''meta'' ''updated'' (JNum (clock w1)) of
                            None \<Rightarrow> (Throw TypeError, m1, w1)
                          | Some v2 \<Rightarrow>
                              (case writeState w1 m1 v2 of
                                 (Throw e, w2) \<Rightarrow> (Throw e, m1, w2)
                               | (Return _, w2) \<Rightarrow> (Return tracker, m1, w2)))))))"

definition MP_get :: "MultiProgress \<Rightarrow> string \<Rightarrow> ProgressTracker result" where
  "MP_get m trackerId =
     (case map_of (mp_trackers m) trackerId of
        None \<Rightarrow> Inl (TrackerNotFound trackerId)
      | Some tracker \<Rightarrow> Inr tracker)"

definition MP_status :: "world \<Rightarrow> MultiProgress \<Rightarrow> jsval result" where
  "MP_status w m = readState w m"

definition MP_remove ::
  "world \<Rightarrow> MultiProgress \<Rightarrow> string \<Rightarrow> unit result outcome \<times> MultiProgress \<times> world" where
  "MP_remove w m trackerId =
     (case map_of (mp_trackers m) trackerId of
        None \<Rightarrow> (Return (Inl (TrackerNotFound trackerId)), m, w)
      | Some tracker \<Rightarrow>
          (let w1 = snd (PT_clear w tracker);
               m1 = m\<lparr>mp_trackers := AList.delete trackerId (mp_trackers m)\<rparr>
           in case readState w1 m1 of
                Inl _ \<Rightarrow> (Return (Inr ()), m1, w1)
              | Inr v \<Rightarrow>
                  (case delete_in v ''trackers'' trackerId of
                     None \<Rightarrow> (Throw TypeError, m1, w1)
                   | Some v1 \<Rightarrow>
                       (case assign_in v1 ''meta'' ''updated'' (JNum (clock w1)) of
                          None \<Rightarrow> (Throw TypeError, m1, w1)
                        | Some v2 \<Rightarrow>
                            (case writeState w1 m1 v2 of
                               (Throw e, w2) \<Rightarrow> (Throw e, m1, w2)
                             | (Return _, w2) \<Rightarrow> (Return (Inr ()), m1, w2))))))"

text \<open>The two loops of \<^verbatim>\<open>done()\<close>: finish every handle, then copy every readable state.\<close>

fun done_all :: "world \<Rightarrow> (string \<times> ProgressTracker) list \<Rightarrow> world" where
  "done_all w [] = w"
| "done_all w ((trackerId, tracker) # rest) = done_all (snd (PT_done w tracker None)) rest"

fun mirror_all :: "world \<Rightarrow> (string \<times> ProgressTracker) list \<Rightarrow> jsval \<Rightarrow> jsval option" where
  "mirror_all w [] v = Some v"
| "mirror_all w ((trackerId, tracker) # rest) v =
     (case PT_get w tracker of
        Inl _ \<Rightarrow> mirror_all w rest v
      | Inr trackerState \<Rightarrow>
          (case assign_in v ''trackers'' trackerId trackerState of
             None \<Rightarrow> None
           | Some v1 \<Rightarrow> mirror_all w rest v1))"

definition MP_done :: "world \<Rightarrow> MultiProgress \<Rightarrow> unit result outcome \<times> world" where
  "MP_done w m =
     (let w1 = done_all w (mp_trackers m) in
      case readState w1 m of
        Inl _ \<Rightarrow> (Return (Inr ()), w1)
      | Inr v \<Rightarrow>
          (case mirror_all w1 (mp_trackers m) v of
             None \<Rightarrow> (Throw TypeError, w1)
           | Some v1 \<Rightarrow>
               (case assign_in v1 ''meta'' ''updated'' (JNum (clock w1)) of
                  None \<Rightarrow> (Throw TypeError, w1)
                | Some v2 \<Rightarrow>
                    (case writeState w1 m v2 of
                       (Throw e, w2) \<Rightarrow> (Throw e, w2)
                     | (Return _, w2) \<Rightarrow> (Return (Inr ()), w2)))))"

fun clear_all :: "world \<Rightarrow> (string \<times> ProgressTracker) list \<Rightarrow> world" where
  "clear_all w [] = w"
| "clear_all w ((trackerId, tracker) # rest) = clear_all (snd (PT_clear w tracker)) rest"

definition MP_clear :: "world \<Rightarrow> MultiProgress \<Rightarrow> unit result \<times> MultiProgress \<times> world" where
  "MP_clear w m =
     (let w1 = clear_all w (mp_trackers m);
          m1 = m\<lparr>mp_trackers := []\<rparr>
      in if existsSync w1 (mp_filePath m)
         then (case unlinkSync w1 (mp_filePath m) of
                 None \<Rightarrow> (Inl ClearFailed, m1, w1)
               | Some w2 \<Rightarrow> (Inr (), m1, w2))
         else (Inr (), m1, w1))"

section \<open>The push adapter\<close>

record StreamProgressConfig =
  spc_total :: int
  spc_message :: string
  spc_id :: "string option"
  spc_filePath :: "string option"
  spc_updateInterval :: "int option"

record ProgressTransform =
  tr_tracker :: ProgressTracker
  tr_updateInterval :: int
  tr_bytesProcessed :: int
  tr_lastEmittedBytes :: int

definition ProgressTransform_new ::
  "world \<Rightarrow> StreamProgressConfig \<Rightarrow> ProgressTransform outcome \<times> world" where
  "ProgressTransform_new w config =
     (case PT_new w \<lparr>ptc_total = spc_total config, ptc_message = spc_message config,
                     ptc_id = spc_id config, ptc_filePath = spc_filePath config\<rparr> of
        (Throw e, w') \<Rightarrow> (Throw e, w')
      | (Return tracker, w') \<Rightarrow>
          (Return \<lparr>tr_tracker = tracker,
                   tr_updateInterval = (case spc_updateInterval config of None \<Rightarrow> 0 | Some n \<Rightarrow> n),
                   tr_bytesProcessed = 0,
                   tr_lastEmittedBytes = 0\<rparr>, w'))"






section \<open>Sequences of calls and the entity invariants\<close>

datatype op = Increment int "string option" | SetTo int "string option" | Finish "string option"

fun apply_op :: "world \<Rightarrow> ProgressConfig \<Rightarrow> op \<Rightarrow> jsval result \<times> world" where
  "apply_op w config (Increment amount message) = increment w amount message config"
| "apply_op w config (SetTo cur message) = setFn w cur message config"
| "apply_op w config (Finish message) = finish w message config"

text \<open>A run of calls, each made at its own reading of the clock.\<close>

fun run_ops :: "world \<Rightarrow> ProgressConfig \<Rightarrow> (int \<times> op) list \<Rightarrow> world" where
  "run_ops w config [] = w"
| "run_ops w config ((now, c) # rest) =
     run_ops (snd (apply_op (w\<lparr>clock := now\<rparr>) config c)) config rest"




text \<open>The shape the \<^verbatim>\<open>ProgressState\<close> interface declares: seven fields of the given types.\<close>

fun is_string :: "jsval option \<Rightarrow> bool" where
  "is_string (Some (JStr s)) = True"
| "is_string v = False"

fun is_boolean :: "jsval option \<Rightarrow> bool" where
  "is_boolean (Some (JBool b)) = True"
| "is_boolean v = False"

definition well_formed_entity :: "jsval \<Rightarrow> bool" where
  "well_formed_entity st =
     (is_number (field_of st ''total'') \<and> is_number (field_of st ''current'') \<and>
      is_string (field_of st ''message'') \<and> is_number (field_of st ''percentage'') \<and>
      is_number (field_of st ''startTime'') \<and> is_number (field_of st ''updatedTime'') \<and>
      is_boolean (field_of st ''complete''))"

section \<open>Auxiliary notions for the statements\<close>

text \<open>
  A write to \<open>p\<close> goes through when neither the temporary path nor \<open>p\<close> refuses it.
  The functions on \<open>op\<close> name what a call asks for: whether its argument is accepted,
  the message it carries, the value of \<open>current\<close> it computes from the stored \<open>current\<close>
  and \<open>total\<close>, and the percentage it stores. \<open>written_by\<close> relates the stored state
  to the state a successful call writes.
\<close>

definition can_write :: "world \<Rightarrow> string \<Rightarrow> bool" where
  "can_write w p = (tempPath w p \<notin> unwritable w \<and> p \<notin> unwritable w)"

fun op_valid :: "op \<Rightarrow> bool" where
  "op_valid (Increment amount message) = (0 \<le> amount)"
| "op_valid (SetTo cur message) = (0 \<le> cur)"
| "op_valid (Finish message) = True"

fun op_message :: "op \<Rightarrow> string option" where
  "op_message (Increment amount message) = message"
| "op_message (SetTo cur message) = message"
| "op_message (Finish message) = message"

fun op_current :: "op \<Rightarrow> int \<Rightarrow> int \<Rightarrow> int" where
  "op_current (Increment amount message) c t = min (c + amount) t"
| "op_current (SetTo cur message) c t = min cur t"
| "op_current (Finish message) c t = t"

fun op_percentage :: "op \<Rightarrow> int \<Rightarrow> int \<Rightarrow> jsval" where
  "op_percentage (Finish message) c t = JNum 100"
| "op_percentage x c t = js_percentage (op_current x c t) t"

definition same_env :: "world \<Rightarrow> world \<Rightarrow> bool" where
  "same_env w w' = (unwritable w' = unwritable w \<and> rnd8 w' = rnd8 w \<and>
                    rnd4 w' = rnd4 w \<and> tmpdir w' = tmpdir w)"

fun is_object :: "jsval \<Rightarrow> bool" where
  "is_object (JObj kvs) = True"
| "is_object v = False"

definition written_by :: "op \<Rightarrow> int \<Rightarrow> jsval \<Rightarrow> jsval \<Rightarrow> bool" where
  "written_by x now st st' =
     (is_object st' \<and>
      field_of st' ''total'' = field_of st ''total'' \<and>
      field_of st' ''current'' =
        Some (JNum (op_current x (num_of (field_of st ''current'')) (num_of (field_of st ''total'')))) \<and>
      field_of st' ''percentage'' =
        Some (op_percentage x (num_of (field_of st ''current'')) (num_of (field_of st ''total''))) \<and>
      field_of st' ''startTime'' = field_of st ''startTime'' \<and>
      field_of st' ''updatedTime'' = Some (JNum now) \<and>
      field_of st' ''message'' =
        (if truthy (op_message x) then Some (JStr (or_else (op_message x) []))
         else field_of st ''message'') \<and>
      field_of st' ''complete'' =
        (if op_current x (num_of (field_of st ''current'')) (num_of (field_of st ''total''))
              \<ge> num_of (field_of st ''total'')
         then Some (JBool True) else field_of st ''complete''))"





definition touches :: "world \<Rightarrow> ProgressConfig \<Rightarrow> string \<Rightarrow> bool" where
  "touches w c p =
     (case getProgressFilePath w c of
        Inl e \<Rightarrow> False
      | Inr q \<Rightarrow> p = q \<or> p = tempPath w q)"


definition added_id :: "world \<Rightarrow> MultiProgressTrackerConfig \<Rightarrow> string" where
  "added_id w config = or_else (mptc_trackerId config) (generateTrackerId w)"




definition member_tracker_config ::
  "world \<Rightarrow> MultiProgress \<Rightarrow> MultiProgressTrackerConfig \<Rightarrow> ProgressTrackerConfig" where
  "member_tracker_config w m config =
     \<lparr>ptc_total = mptc_total config, ptc_message = mptc_message config,
      ptc_id = Some (mp_id m @ ''-'' @ added_id w config), ptc_filePath = None\<rparr>"

section \<open>Concrete environments\<close>

text \<open>Small environments and states on which the statements below are evaluated.\<close>

definition ex_world :: world where
  "ex_world = \<lparr>files = Map.empty, unwritable = {}, clock = 1000, rnd8 = ''00112233aabbccdd'',
               rnd4 = ''89abcdef'', tmpdir = ''/tmp''\<rparr>"

definition ex_config :: ProgressConfig where
  "ex_config = \<lparr>cfg_id = Some ''job'', cfg_filePath = None\<rparr>"

definition ex_started :: jsval where
  "ex_started = JObj
     [(''total'', JNum 10), (''current'', JNum 3), (''message'', JStr ''start''),
      (''percentage'', JNum 30), (''startTime'', JNum 1000), (''updatedTime'', JNum 1200),
      (''complete'', JBool False)]"

definition ex_world_started :: world where
  "ex_world_started =
     ex_world\<lparr>files := [''/tmp/progress-job.json'' \<mapsto> Json ex_started], clock := 2000\<rparr>"

definition ex_finished :: jsval where
  "ex_finished = JObj
     [(''total'', JNum 10), (''current'', JNum 10), (''message'', JStr ''done''),
      (''percentage'', JNum 100), (''startTime'', JNum 1000), (''updatedTime'', JNum 1500),
      (''complete'', JBool True)]"

definition ex_world_finished :: world where
  "ex_world_finished =
     ex_world\<lparr>files := [''/tmp/progress-job.json'' \<mapsto> Json ex_finished], clock := 2000\<rparr>"




definition ex_long_message :: string where
  "ex_long_message = replicate 10001 CHR ''a''"

definition ex_partial :: jsval where
  "ex_partial = JObj [(''total'', JNum 10), (''current'', JNum 3)]"

definition ex_world_partial :: world where
  "ex_world_partial = ex_world\<lparr>files := [''/tmp/progress-job.json'' \<mapsto> Json ex_partial]\<rparr>"

definition ex_group :: MultiProgress where
  "ex_group = \<lparr>mp_id = ''grp'', mp_filePath = ''/tmp/progress-multi-grp.json'', mp_trackers = []\<rparr>"

definition ex_world_number :: world where
  "ex_world_number = ex_world\<lparr>files := [''/tmp/progress-multi-grp.json'' \<mapsto> Json (JNum 5)]\<rparr>"






definition ex_member0 :: ProgressTracker where
  "ex_member0 = \<lparr>pt_config = \<lparr>cfg_id = Some ''grp-t0'', cfg_filePath = None\<rparr>\<rparr>"

definition ex_member1 :: ProgressTracker where
  "ex_member1 = \<lparr>pt_config = \<lparr>cfg_id = Some ''grp-t1'', cfg_filePath = None\<rparr>\<rparr>"

definition ex_group0 :: MultiProgress where
  "ex_group0 = ex_group\<lparr>mp_trackers := [(''t0'', ex_member0)]\<rparr>"


definition ex_world_orphan :: world where
  "ex_world_orphan = ex_world\<lparr>files := [''/tmp/progress-grp-t0.json'' \<mapsto> Json ex_started]\<rparr>"

definition ex_add :: MultiProgressTrackerConfig where
  "ex_add = \<lparr>mptc_total = 10, mptc_message = ''a'', mptc_trackerId = Some ''t1''\<rparr>"

definition ex_member0_finished :: jsval where
  "ex_member0_finished = JObj
     [(''total'', JNum 10), (''current'', JNum 10), (''message'', JStr ''start''),
      (''percentage'', JNum 100), (''startTime'', JNum 1000), (''updatedTime'', JNum 1000),
      (''complete'', JBool True)]"

section \<open>Facts about the store and the single tracker\<close>

lemma field_of_JObj [simp]: "field_of (JObj kvs) k = map_of kvs k"
  by (simp add: field_of_def)

lemma field_of_set_prop [simp]:
  "field_of (set_prop (JObj kvs) k v) k' = (if k' = k then Some v else map_of kvs k')"
  by (simp add: field_of_def update_conv')

lemma tempPath_neq [simp]: "tempPath w p \<noteq> p" "p \<noteq> tempPath w p"
  by (simp_all add: tempPath_def)

lemma readProgress_Inr_iff:
  "readProgress w p = Inr st \<longleftrightarrow>
     files w p = Some (Json st) \<and> (\<exists>kvs. st = JObj kvs) \<and>
     is_number (field_of st ''total'') \<and> is_number (field_of st ''current'')"
  by (cases st) (auto simp: readProgress_def field_of_def split: option.splits content.splits)

lemma writeProgressAtomic_ok:
  "can_write w p \<Longrightarrow>
     writeProgressAtomic w p s =
       (Inr (), w\<lparr>files := ((files w)(p \<mapsto> Json s))(tempPath w p := None)\<rparr>)"
  by (auto simp: writeProgressAtomic_def can_write_def writeFileSync_def renameSync_def fun_upd_twist)

lemma writeProgressAtomic_fail:
  "\<not> can_write w p \<Longrightarrow> \<exists>w'. writeProgressAtomic w p s = (Inl WriteFailed, w') \<and> files w' p = files w p
      \<and> unwritable w' = unwritable w \<and> clock w' = clock w \<and> rnd8 w' = rnd8 w \<and> tmpdir w' = tmpdir w"
  by (auto simp: writeProgressAtomic_def can_write_def writeFileSync_def renameSync_def)

lemma is_number_iff: "is_number v \<longleftrightarrow> (\<exists>n. v = Some (JNum n))"
  by (cases v rule: is_number.cases) auto

lemma apply_op_success:
  assumes "getProgressFilePath w config = Inr p" and "readProgress w p = Inr st"
    and "op_valid x" and "can_write w p"
  shows "\<exists>st'. apply_op w config x =
             (Inr st', w\<lparr>files := ((files w)(p \<mapsto> Json st'))(tempPath w p := None)\<rparr>) \<and>
           written_by x (clock w) st st'"
proof -
  from assms(2) obtain kvs t c where st: "st = JObj kvs"
    and t: "map_of kvs ''total'' = Some (JNum t)" and c: "map_of kvs ''current'' = Some (JNum c)"
    by (auto simp: readProgress_Inr_iff is_number_iff)
  show ?thesis
  proof (cases x)
    case (Increment amount message)
    then show ?thesis using assms st t c
      by (simp add: written_by_def increment_def Let_def writeProgressAtomic_ok update_conv')
  next
    case (SetTo cur message)
    then show ?thesis using assms st t c
      by (simp add: written_by_def setFn_def Let_def writeProgressAtomic_ok update_conv')
  next
    case (Finish message)
    then show ?thesis using assms st t c
      by (simp add: written_by_def finish_def Let_def writeProgressAtomic_ok update_conv')
  qed
qed

lemma apply_op_failure:
  assumes "getProgressFilePath w config = Inr p"
    and "\<not> (op_valid x \<and> can_write w p) \<or> (\<forall>st. readProgress w p \<noteq> Inr st)"
  shows "\<exists>e w'. apply_op w config x = (Inl e, w') \<and> files w' p = files w p \<and> same_env w w'"
proof (cases "\<exists>st. readProgress w p = Inr st")
  case False
  then obtain e where "readProgress w p = Inl e" by (cases "readProgress w p") auto
  then show ?thesis using assms(1)
    by (cases x) (auto simp: increment_def setFn_def finish_def same_env_def)
next
  case True
  then obtain st where r: "readProgress w p = Inr st" by blast
  with assms(2) have nv: "\<not> op_valid x \<or> \<not> can_write w p" by auto
  show ?thesis
  proof (cases "op_valid x")
    case False
    then show ?thesis using assms(1) by (cases x) (auto simp: increment_def setFn_def same_env_def)
  next
    case True
    with nv have ncw: "\<not> can_write w p" by simp
    from r obtain kvs t c where st: "st = JObj kvs"
      and t: "map_of kvs ''total'' = Some (JNum t)" and c: "map_of kvs ''current'' = Some (JNum c)"
      by (auto simp: readProgress_Inr_iff is_number_iff)
    show ?thesis using ncw True assms(1) r
      by (cases x)
         (auto simp: increment_def setFn_def finish_def Let_def writeProgressAtomic_def can_write_def
            writeFileSync_def renameSync_def same_env_def)
  qed
qed

lemma is_object_iff: "is_object v \<longleftrightarrow> (\<exists>kvs. v = JObj kvs)"
  by (cases v) auto

lemma getProgressFilePath_env:
  "tmpdir w' = tmpdir w \<Longrightarrow> getProgressFilePath w' config = getProgressFilePath w config"
  by (simp add: getProgressFilePath_def Let_def split: sum.splits)

lemma readProgress_files: "files w' p = files w p \<Longrightarrow> readProgress w' p = readProgress w p"
  by (simp add: readProgress_def)

lemma getFn_Inr_iff:
  "getFn w config = Inr st \<longleftrightarrow>
     (\<exists>p. getProgressFilePath w config = Inr p \<and> readProgress w p = Inr st)"
  by (auto simp: getFn_def split: sum.splits)

lemma getFn_after_write:
  assumes "getProgressFilePath w config = Inr p" and "is_object st'"
    and "is_number (field_of st' ''total'')" and "is_number (field_of st' ''current'')"
  shows "getFn (w\<lparr>files := ((files w)(p \<mapsto> Json st'))(tempPath w p := None)\<rparr>) config = Inr st'"
proof -
  let ?w = "w\<lparr>files := ((files w)(p \<mapsto> Json st'))(tempPath w p := None)\<rparr>"
  have "getProgressFilePath ?w config = Inr p"
    using assms(1) getProgressFilePath_env[of ?w w config] by simp
  moreover have "readProgress ?w p = Inr st'"
    using assms(2-4) by (simp add: readProgress_Inr_iff is_object_iff)
  ultimately show ?thesis by (simp add: getFn_def)
qed

lemma apply_op_stored:
  assumes "getFn w config = Inr st"
  shows "(\<exists>e w'. apply_op w config x = (Inl e, w') \<and> getFn w' config = Inr st \<and> same_env w w') \<or>
         (\<exists>st' w'. apply_op w config x = (Inr st', w') \<and> getFn w' config = Inr st' \<and> same_env w w' \<and>
            op_valid x \<and> written_by x (clock w) st st')"
proof -
  from assms obtain p where p: "getProgressFilePath w config = Inr p" and r: "readProgress w p = Inr st"
    by (auto simp: getFn_Inr_iff)
  from r have nums: "is_number (field_of st ''total'')" "is_number (field_of st ''current'')"
    by (auto simp: readProgress_Inr_iff)
  show ?thesis
  proof (cases "op_valid x \<and> can_write w p")
    case True
    then have v: "op_valid x" and cw: "can_write w p" by simp_all
    from apply_op_success[OF p r v cw] obtain st' where
      eq: "apply_op w config x =
             (Inr st', w\<lparr>files := ((files w)(p \<mapsto> Json st'))(tempPath w p := None)\<rparr>)"
      and wb: "written_by x (clock w) st st'"
      by blast
    have "getFn (w\<lparr>files := ((files w)(p \<mapsto> Json st'))(tempPath w p := None)\<rparr>) config = Inr st'"
    proof (rule getFn_after_write[OF p])
      show "is_object st'" using wb by (simp add: written_by_def)
      show "is_number (field_of st' ''total'')" using wb nums by (simp add: written_by_def)
      show "is_number (field_of st' ''current'')" using wb by (simp add: written_by_def)
    qed
    with eq wb v show ?thesis by (simp add: same_env_def)
  next
    case False
    then have "\<not> (op_valid x \<and> can_write w p) \<or> (\<forall>st. readProgress w p \<noteq> Inr st)" by simp
    from apply_op_failure[OF p this] obtain e w' where
      eq: "apply_op w config x = (Inl e, w')" and fs: "files w' p = files w p" and env: "same_env w w'"
      by blast
    have "getProgressFilePath w' config = Inr p"
      using p env getProgressFilePath_env[of w' w config] by (simp add: same_env_def)
    moreover have "readProgress w' p = Inr st"
      using r fs readProgress_files[of w' p w] by simp
    ultimately have "getFn w' config = Inr st" by (simp add: getFn_def)
    with eq env show ?thesis by simp
  qed
qed

lemma getFn_clock [simp]: "getFn (w\<lparr>clock := t\<rparr>) config = getFn w config"
  by (simp add: getFn_def getProgressFilePath_def readProgress_def Let_def split: sum.splits)



subsection \<open>Evaluation on the concrete environments\<close>

lemma ex_validateId: "validateId ''job'' = Inr ''job''"
  by (simp add: validateId_def id_chars_def)

lemma ex_path [simp]:
  "tmpdir w = ''/tmp'' \<Longrightarrow> getProgressFilePath w ex_config = Inr ''/tmp/progress-job.json''"
  by (simp add: getProgressFilePath_def ex_config_def ex_validateId join_def)

lemma ex_tmpdir [simp]:
  "tmpdir ex_world = ''/tmp''" "tmpdir ex_world_started = ''/tmp''" "tmpdir ex_world_finished = ''/tmp''"
  by (simp_all add: ex_world_def ex_world_started_def ex_world_finished_def)

lemma ex_can_write [simp]:
  "can_write ex_world p" "can_write ex_world_started p" "can_write ex_world_finished p"
  by (simp_all add: can_write_def ex_world_def ex_world_started_def ex_world_finished_def)

lemma ex_get_started: "getFn ex_world_started ex_config = Inr ex_started"
  by (simp add: getFn_def) (simp add: readProgress_def ex_world_started_def ex_started_def)

lemma ex_get_finished: "getFn ex_world_finished ex_config = Inr ex_finished"
  by (simp add: getFn_def) (simp add: readProgress_def ex_world_finished_def ex_finished_def)


section \<open>The completion flag and the message\<close>




text \<open>
  Claim C9. The flag \<^verbatim>\<open>complete\<close> is monotone: once the stored entity has
  \<^verbatim>\<open>complete = true\<close>, the entity stored after any run of \<^verbatim>\<open>increment\<close>, \<^verbatim>\<open>set\<close> and
  \<^verbatim>\<open>finish\<close> calls, successful or not, still has \<^verbatim>\<open>complete = true\<close>, also when a call
  lowers \<^verbatim>\<open>current\<close> below \<^verbatim>\<open>total\<close>.
\<close>

theorem complete_flag_monotone:
  assumes "getFn w config = Inr st" and "field_of st ''complete'' = Some (JBool True)"
  shows "\<exists>st'. getFn (run_ops w config calls) config = Inr st' \<and>
               field_of st' ''complete'' = Some (JBool True)"
  using assms
proof (induction calls arbitrary: w st)
  case Nil
  then show ?case by simp
next
  case (Cons a calls)
  obtain now x where a: "a = (now, x)" by (cases a)
  have g: "getFn (w\<lparr>clock := now\<rparr>) config = Inr st" using Cons.prems(1) by simp
  from apply_op_stored[OF g, of x]
  obtain r w' where ap: "snd (apply_op (w\<lparr>clock := now\<rparr>) config x) = w'"
    and st': "getFn w' config = Inr r" and c: "field_of r ''complete'' = Some (JBool True)"
    using Cons.prems(2) by (auto simp: written_by_def split: if_splits)
  from Cons.IH[OF st' c] show ?case using a ap by simp
qed

theorem complete_flag_monotone_witness:
  "getFn ex_world_finished ex_config = Inr ex_finished \<and>
   field_of ex_finished ''complete'' = Some (JBool True) \<and>
   (\<exists>st'. getFn (run_ops ex_world_finished ex_config [(2000, SetTo 3 None)]) ex_config = Inr st' \<and>
      field_of st' ''complete'' = Some (JBool True))"
proof -
  have c: "field_of ex_finished ''complete'' = Some (JBool True)"
    by (simp add: ex_finished_def)
  from complete_flag_monotone[OF ex_get_finished c, of "[(2000, SetTo 3 None)]"] ex_get_finished c
  show ?thesis by simp
qed

text \<open>
  Claim C10. Passing the empty string as the message to \<^verbatim>\<open>increment\<close>, \<^verbatim>\<open>set\<close> or
  \<^verbatim>\<open>finish\<close> leaves the stored message as it was: for every stored entity state, the
  entity stored after the call has the message it had before.
\<close>

theorem empty_message_keeps_message:
  assumes "getFn w config = Inr st"
  shows "(\<exists>s. getFn (snd (increment w amount (Some []) config)) config = Inr s \<and>
              field_of s ''message'' = field_of st ''message'') \<and>
         (\<exists>s. getFn (snd (setFn w cur (Some []) config)) config = Inr s \<and>
              field_of s ''message'' = field_of st ''message'') \<and>
         (\<exists>s. getFn (snd (finish w (Some []) config)) config = Inr s \<and>
              field_of s ''message'' = field_of st ''message'')"
proof -
  have "\<exists>s. getFn (snd (apply_op w config x)) config = Inr s \<and>
            field_of s ''message'' = field_of st ''message''"
    if "op_message x = Some []" for x
    using apply_op_stored[OF assms, of x] that by (auto simp: written_by_def)
  from this[of "Increment amount (Some [])"] this[of "SetTo cur (Some [])"] this[of "Finish (Some [])"]
  show ?thesis by simp
qed

theorem empty_message_keeps_message_witness:
  "getFn ex_world_started ex_config = Inr ex_started \<and>
   (\<exists>s. getFn (snd (increment ex_world_started 4 (Some []) ex_config)) ex_config = Inr s \<and>
        field_of s ''message'' = Some (JStr ''start'')) \<and>
   (\<exists>s. getFn (snd (setFn ex_world_started 4 (Some []) ex_config)) ex_config = Inr s \<and>
        field_of s ''message'' = Some (JStr ''start'')) \<and>
   (\<exists>s. getFn (snd (finish ex_world_started (Some []) ex_config)) ex_config = Inr s \<and>
        field_of s ''message'' = Some (JStr ''start''))"
proof -
  have m: "field_of ex_started ''message'' = Some (JStr ''start'')"
    by (simp add: ex_started_def)
  from empty_message_keeps_message[OF ex_get_started, of 4 4] ex_get_started m
  show ?thesis by simp
qed

section \<open>Message length and identifiers\<close>

lemma js_percentage_4_10: "js_percentage 4 10 = JNum 40"
  by code_simp

text \<open>
  Claim C7 says that a mutation with a message longer than the maximum fails with a
  validation error before the file system is touched. \<^verbatim>\<open>validateMessage\<close> rejects such a
  message, but no operation calls it: \<^verbatim>\<open>increment\<close> with a message of 10001 characters
  succeeds and stores the message.
\<close>

theorem long_message_accepted:
  "validateMessage ex_long_message = Inl MessageTooLong \<and>
   fst (increment ex_world_started 1 (Some ex_long_message) ex_config) =
     Inr (JObj
       [(''total'', JNum 10), (''current'', JNum 4), (''message'', JStr ex_long_message),
        (''percentage'', JNum 40), (''startTime'', JNum 1000), (''updatedTime'', JNum 2000),
        (''complete'', JBool False)]) \<and>
   getFn (snd (increment ex_world_started 1 (Some ex_long_message) ex_config)) ex_config =
     Inr (JObj
       [(''total'', JNum 10), (''current'', JNum 4), (''message'', JStr ex_long_message),
        (''percentage'', JNum 40), (''startTime'', JNum 1000), (''updatedTime'', JNum 2000),
        (''complete'', JBool False)])"
proof -
  have ne: "ex_long_message \<noteq> []" by (simp add: ex_long_message_def)
  have 1: "validateMessage ex_long_message = Inl MessageTooLong"
    by (simp add: validateMessage_def MAX_MESSAGE_LENGTH_def ex_long_message_def)
  have 2: "increment ex_world_started 1 (Some ex_long_message) ex_config =
     (Inr (JObj
       [(''total'', JNum 10), (''current'', JNum 4), (''message'', JStr ex_long_message),
        (''percentage'', JNum 40), (''startTime'', JNum 1000), (''updatedTime'', JNum 2000),
        (''complete'', JBool False)]),
      ex_world_started\<lparr>files := [''/tmp/progress-job.json'' \<mapsto> Json (JObj
       [(''total'', JNum 10), (''current'', JNum 4), (''message'', JStr ex_long_message),
        (''percentage'', JNum 40), (''startTime'', JNum 1000), (''updatedTime'', JNum 2000),
        (''complete'', JBool False)])]\<rparr>)"
    using ne
    by (simp add: increment_def Let_def)
       (simp add: readProgress_def ex_world_started_def ex_started_def ex_world_def
        writeProgressAtomic_def writeFileSync_def renameSync_def tempPath_def js_percentage_4_10 Let_def)
  have 3: "getFn (ex_world_started\<lparr>files := [''/tmp/progress-job.json'' \<mapsto> Json (JObj
       [(''total'', JNum 10), (''current'', JNum 4), (''message'', JStr ex_long_message),
        (''percentage'', JNum 40), (''startTime'', JNum 1000), (''updatedTime'', JNum 2000),
        (''complete'', JBool False)])]\<rparr>) ex_config = Inr (JObj
       [(''total'', JNum 10), (''current'', JNum 4), (''message'', JStr ex_long_message),
        (''percentage'', JNum 40), (''startTime'', JNum 1000), (''updatedTime'', JNum 2000),
        (''complete'', JBool False)])"
    by (simp add: getFn_def) (simp add: readProgress_def)
  from 1 2 3 show ?thesis by simp
qed

text \<open>
  Claim C3 says that every identifier, group identifiers included, is validated before
  the file system is touched. The constructor of the group registry builds the path of
  the aggregate from the identifier as given: for the identifier \<^verbatim>\<open>a.b\<close>, which
  \<^verbatim>\<open>validateId\<close> rejects, it returns a registry and has created the aggregate file.
\<close>

theorem group_id_not_validated:
  "validateId ''a.b'' = Inl IdBadChars \<and>
   fst (MP_new ex_world \<lparr>mpc_id = Some ''a.b'', mpc_filePath = None\<rparr>) =
     Return \<lparr>mp_id = ''a.b'', mp_filePath = ''/tmp/progress-multi-a.b.json'', mp_trackers = []\<rparr> \<and>
   files (snd (MP_new ex_world \<lparr>mpc_id = Some ''a.b'', mpc_filePath = None\<rparr>))
     ''/tmp/progress-multi-a.b.json'' =
     Some (Json (JObj [(''trackers'', JObj []),
                       (''meta'', JObj [(''created'', JNum 1000), (''updated'', JNum 1000)])]))"
  by (simp add: validateId_def id_chars_def MP_new_def Let_def join_def ex_world_def existsSync_def
      writeState_def stateTempPath_def writeFileSync_def renameSync_def)

section \<open>Decoding\<close>

lemma get_prop_field_of: "v \<noteq> JNull \<Longrightarrow> get_prop v k = Some (field_of v k)"
  by (cases v) (simp_all add: field_of_def)

lemma readProgress_Inl_cases:
  "readProgress w p = Inl e \<Longrightarrow> e = FileMissing \<or> e = ReadFailed \<or> e = InvalidFormat"
  by (auto simp: readProgress_def split: option.splits content.splits if_splits)

text \<open>
  Claim C5, as the specification states it, says that decoding rejects every stored
  state with a missing or ill-typed field. The code checks two fields: an object with
  only \<^verbatim>\<open>total\<close> and \<^verbatim>\<open>current\<close> decodes, its other fields absent, and the aggregate
  decoder accepts the number 5.
\<close>

theorem partial_state_decodes:
  "readProgress ex_world_partial ''/tmp/progress-job.json'' = Inr ex_partial \<and>
   field_of ex_partial ''message'' = None \<and>
   field_of ex_partial ''percentage'' = None \<and>
   field_of ex_partial ''complete'' = None \<and>
   \<not> well_formed_entity ex_partial \<and>
   readState ex_world_number ex_group = Inr (JNum 5)"
  by (simp add: readProgress_def ex_world_partial_def ex_partial_def well_formed_entity_def
      readState_def ex_world_number_def ex_group_def ex_world_def)

text \<open>
  Claim C5, amended. Decoding a stored entity succeeds exactly when the file parses to an
  object whose \<^verbatim>\<open>total\<close> and \<^verbatim>\<open>current\<close> are numbers, and then returns the parsed
  value as it is, with no field checked further and none defaulted. It fails with
  ``does not exist'' exactly when the file is absent, with ``failed to read'' exactly when
  the content does not parse or is \<^verbatim>\<open>null\<close>, and with ``invalid format'' exactly when
  the content parses to another value whose \<^verbatim>\<open>total\<close> or \<^verbatim>\<open>current\<close> is not a number.
  Decoding the aggregate of a group succeeds exactly when its file parses.
\<close>

theorem decode_checks_total_and_current_only:
  "(readProgress w p = Inr st \<longleftrightarrow>
      files w p = Some (Json st) \<and> is_object st \<and>
      is_number (field_of st ''total'') \<and> is_number (field_of st ''current'')) \<and>
   (readProgress w p = Inl FileMissing \<longleftrightarrow> files w p = None) \<and>
   (readProgress w p = Inl ReadFailed \<longleftrightarrow>
      files w p = Some Garbage \<or> files w p = Some (Json JNull)) \<and>
   (readProgress w p = Inl InvalidFormat \<longleftrightarrow>
      (\<exists>v. files w p = Some (Json v) \<and> v \<noteq> JNull \<and>
           \<not> (is_number (field_of v ''total'') \<and> is_number (field_of v ''current'')))) \<and>
   (\<forall>e. readProgress w p = Inl e \<longrightarrow> e = FileMissing \<or> e = ReadFailed \<or> e = InvalidFormat) \<and>
   (readState w m = Inr v \<longleftrightarrow> files w (mp_filePath m) = Some (Json v))"
proof -
  have 1: "readProgress w p = Inr st \<longleftrightarrow>
      files w p = Some (Json st) \<and> is_object st \<and>
      is_number (field_of st ''total'') \<and> is_number (field_of st ''current'')"
    by (simp add: readProgress_Inr_iff is_object_iff)
  have 2: "readProgress w p = Inl FileMissing \<longleftrightarrow> files w p = None"
    by (auto simp: readProgress_def split: option.splits content.splits)
  have 3: "readProgress w p = Inl ReadFailed \<longleftrightarrow>
      files w p = Some Garbage \<or> files w p = Some (Json JNull)"
    by (auto simp: readProgress_def split: option.splits content.splits elim: get_prop.elims)
  have 4: "readProgress w p = Inl InvalidFormat \<longleftrightarrow>
      (\<exists>v. files w p = Some (Json v) \<and> v \<noteq> JNull \<and>
           \<not> (is_number (field_of v ''total'') \<and> is_number (field_of v ''current'')))"
  proof (cases "files w p")
    case None
    then show ?thesis by (simp add: readProgress_def)
  next
    case (Some c)
    show ?thesis
    proof (cases c)
      case Garbage
      with Some show ?thesis by (simp add: readProgress_def)
    next
      case (Json v)
      show ?thesis
      proof (cases "v = JNull")
        case True
        with Some Json show ?thesis by (simp add: readProgress_def)
      next
        case False
        with Some Json show ?thesis by (auto simp: readProgress_def get_prop_field_of)
      qed
    qed
  qed
  have 5: "\<forall>e. readProgress w p = Inl e \<longrightarrow> e = FileMissing \<or> e = ReadFailed \<or> e = InvalidFormat"
    using readProgress_Inl_cases by blast
  have 6: "readState w m = Inr v \<longleftrightarrow> files w (mp_filePath m) = Some (Json v)"
    by (auto simp: readState_def split: option.splits content.splits)
  from 1 2 3 4 5 6 show ?thesis by blast
qed

theorem decode_checks_total_and_current_only_witness:
  "readProgress ex_world_started ''/tmp/progress-job.json'' = Inr ex_started \<and>
   readProgress ex_world ''/tmp/progress-job.json'' = Inl FileMissing \<and>
   readProgress ex_world_number ''/tmp/progress-multi-grp.json'' = Inl InvalidFormat \<and>
   readState ex_world_number ex_group = Inr (JNum 5)"
proof -
  have 1: "readProgress ex_world_started ''/tmp/progress-job.json'' = Inr ex_started"
    using decode_checks_total_and_current_only
            [of ex_world_started "''/tmp/progress-job.json''" ex_started ex_group JNull]
    by (simp add: ex_world_started_def ex_started_def)
  have 2: "readProgress ex_world ''/tmp/progress-job.json'' = Inl FileMissing"
    using decode_checks_total_and_current_only
            [of ex_world "''/tmp/progress-job.json''" ex_started ex_group JNull]
    by (simp add: ex_world_def)
  have 3: "readProgress ex_world_number ''/tmp/progress-multi-grp.json'' = Inl InvalidFormat"
    using decode_checks_total_and_current_only
            [of ex_world_number "''/tmp/progress-multi-grp.json''" ex_started ex_group "JNum 5"]
    by (simp add: ex_world_number_def field_of_def)
  have 4: "readState ex_world_number ex_group = Inr (JNum 5)"
    using decode_checks_total_and_current_only
            [of ex_world_number "''/tmp/progress-multi-grp.json''" ex_started ex_group "JNum 5"]
    by (simp add: ex_world_number_def ex_group_def)
  from 1 2 3 4 show ?thesis by simp
qed

section \<open>The invariants\<close>














section \<open>The push adapter\<close>








lemma js_percentage_100_300: "js_percentage 100 300 = JNum 33"
  by code_simp

text \<open>
  The double arithmetic shows in the result: 29 of 200 is exactly 14.5 percent, but the
  double nearest to the quotient lies below 0.145 and the percentage stored is 14.
\<close>

lemma js_percentage_29_200: "js_percentage 29 200 = JNum 14"
  by code_simp

lemma round_double_29_200:
  "round_double (round_double (29 / 200) * 100) < 29 / 2"
  by code_simp





section \<open>What a call can change\<close>

lemma same_env_refl [simp]: "same_env w w"
  by (simp add: same_env_def)

lemma same_env_trans: "same_env a b \<Longrightarrow> same_env b c \<Longrightarrow> same_env a c"
  by (simp add: same_env_def)

lemma same_env_clock [simp]: "same_env w (w'\<lparr>clock := t\<rparr>) = same_env w w'"
  "same_env (w\<lparr>clock := t\<rparr>) w' = same_env w w'"
  by (simp_all add: same_env_def)

lemma touches_env: "same_env w w' \<Longrightarrow> touches w' c p = touches w c p"
  using getProgressFilePath_env[of w' w c]
  by (simp add: touches_def same_env_def tempPath_def split: sum.splits)

lemma writeProgressAtomic_frame:
  "p \<noteq> q \<Longrightarrow> p \<noteq> tempPath w q \<Longrightarrow> files (snd (writeProgressAtomic w q s)) p = files w p"
  by (auto simp: writeProgressAtomic_def writeFileSync_def renameSync_def split: option.splits)

lemma writeProgressAtomic_env: "same_env w (snd (writeProgressAtomic w q s))"
  by (auto simp: writeProgressAtomic_def writeFileSync_def renameSync_def same_env_def
      split: option.splits)

lemma snd_commit [simp]:
  "snd (case r of (Inl e, w') \<Rightarrow> (Inl e, w') | (Inr u, w') \<Rightarrow> (Inr s, w')) = snd r"
  by (cases r) (auto split: sum.splits)

lemma apply_op_env: "same_env w (snd (apply_op w c x))"
  by (cases x)
     (auto simp: increment_def setFn_def finish_def Let_def writeProgressAtomic_env
        split: sum.splits)

lemma apply_op_frame:
  assumes "\<not> touches w c p"
  shows "files (snd (apply_op w c x)) p = files w p"
  using assms
  by (cases x)
     (auto simp: touches_def increment_def setFn_def finish_def Let_def writeProgressAtomic_frame
        split: sum.splits)

lemma init_env: "same_env w (snd (init w tot message c))"
  by (auto simp: init_def Let_def writeProgressAtomic_env split: sum.splits)

lemma init_frame:
  assumes "\<not> touches w c p"
  shows "files (snd (init w tot message c)) p = files w p"
  using assms
  by (auto simp: touches_def init_def Let_def writeProgressAtomic_frame split: sum.splits)

lemma clearFn_env: "same_env w (snd (clearFn w c))"
  by (auto simp: clearFn_def unlinkSync_def same_env_def split: sum.splits option.splits)

lemma clearFn_frame:
  assumes "\<not> touches w c p"
  shows "files (snd (clearFn w c)) p = files w p"
  using assms
  by (auto simp: touches_def clearFn_def unlinkSync_def split: sum.splits option.splits if_splits)


lemma touches_clock [simp]: "touches (w\<lparr>clock := t\<rparr>) c p = touches w c p"
  by (rule touches_env) simp



lemma readState_files:
  "files w' (mp_filePath m') = files w (mp_filePath m) \<Longrightarrow> readState w' m' = readState w m"
  by (simp add: readState_def)

lemma stateTempPath_neq [simp]: "stateTempPath w m \<noteq> mp_filePath m" "mp_filePath m \<noteq> stateTempPath w m"
  by (simp_all add: stateTempPath_def)


lemma writeState_frame:
  "p \<noteq> mp_filePath m \<Longrightarrow> p \<noteq> stateTempPath w m \<Longrightarrow> files (snd (writeState w m v)) p = files w p"
  by (auto simp: writeState_def Let_def writeFileSync_def renameSync_def unlinkSync_def existsSync_def
      split: option.splits if_splits)

lemma writeState_env: "same_env w (snd (writeState w m v))"
  by (auto simp: writeState_def Let_def writeFileSync_def renameSync_def unlinkSync_def existsSync_def
      same_env_def split: option.splits if_splits)








lemma can_write_clock [simp]: "can_write (w\<lparr>clock := t\<rparr>) p = can_write w p"
  by (simp add: can_write_def tempPath_def)

lemma getProgressFilePath_clock [simp]:
  "getProgressFilePath (w\<lparr>clock := t\<rparr>) c = getProgressFilePath w c"
  by (rule getProgressFilePath_env) simp

lemma readState_clock [simp]: "readState (w\<lparr>clock := t\<rparr>) m = readState w m"
  by (simp add: readState_def)

lemma PT_done_env: "same_env w (snd (PT_done w h message))"
  using apply_op_env[of w "pt_config h" "Finish message"] by (simp add: PT_done_def)

lemma PT_done_frame: "\<not> touches w (pt_config h) p \<Longrightarrow> files (snd (PT_done w h message)) p = files w p"
  using apply_op_frame[of w "pt_config h" p "Finish message"] by (simp add: PT_done_def)

lemma done_all_env: "same_env w (done_all w ts)"
proof (induction ts arbitrary: w)
  case Nil
  show ?case by simp
next
  case (Cons a ts)
  obtain k h where a: "a = (k, h)" by (cases a)
  from same_env_trans[OF PT_done_env[of w h None] Cons.IH] show ?case by (simp add: a)
qed

lemma done_all_frame:
  assumes "list_all (\<lambda>(k, h). \<not> touches w (pt_config h) p) ts"
  shows "files (done_all w ts) p = files w p"
  using assms
proof (induction ts arbitrary: w)
  case Nil
  show ?case by simp
next
  case (Cons a ts)
  obtain k h where a: "a = (k, h)" by (cases a)
  let ?w1 = "snd (PT_done w h None)"
  from Cons.prems a have nt: "\<not> touches w (pt_config h) p"
    and rest: "list_all (\<lambda>(k, h). \<not> touches w (pt_config h) p) ts"
    by simp_all
  have env: "same_env w ?w1" by (rule PT_done_env)
  have "list_all (\<lambda>(k, h). \<not> touches ?w1 (pt_config h) p) ts"
    using rest by (simp add: touches_env[OF env])
  from Cons.IH[OF this] PT_done_frame[OF nt, of None] show ?case by (simp add: a)
qed












lemma ex_member_paths:
  "tmpdir w = ''/tmp'' \<Longrightarrow>
     getProgressFilePath w (pt_config ex_member0) = Inr ''/tmp/progress-grp-t0.json''"
  "tmpdir w = ''/tmp'' \<Longrightarrow>
     getProgressFilePath w (pt_config ex_member1) = Inr ''/tmp/progress-grp-t1.json''"
  by (simp_all add: getProgressFilePath_def ex_member0_def ex_member1_def validateId_def id_chars_def
      join_def)

lemma PT_new_env: "same_env w (snd (PT_new w c))"
  using init_env[of w "ptc_total c" "ptc_message c" "\<lparr>cfg_id = ptc_id c, cfg_filePath = ptc_filePath c\<rparr>"]
  by (auto simp: PT_new_def Let_def split: prod.splits sum.splits)

lemma stateTempPath_env:
  "same_env w w' \<Longrightarrow> mp_filePath m' = mp_filePath m \<Longrightarrow> stateTempPath w' m' = stateTempPath w m"
  by (simp add: stateTempPath_def same_env_def)

lemma MP_add_frame:
  assumes "p \<noteq> mp_filePath m" and "p \<noteq> stateTempPath w m"
  shows "files (snd (snd (MP_add w m config))) p = files (snd (PT_new w (member_tracker_config w m config))) p"
proof -
  let ?w1 = "snd (PT_new w (member_tracker_config w m config))"
  have env: "same_env w ?w1" by (rule PT_new_env)
  have f: "files w' p = files ?w1 p"
    if "writeState ?w1 m' v = (r, w')" and "mp_filePath m' = mp_filePath m" for m' v r w'
    using writeState_frame[of p m' ?w1 v] assms stateTempPath_env[OF env that(2)] that by simp
  show ?thesis
    using f
    by (auto simp: MP_add_def Let_def member_tracker_config_def added_id_def
        split: prod.splits sum.splits outcome.splits option.splits)
qed

lemma PT_clear_env: "same_env w (snd (PT_clear w t))"
  by (simp add: PT_clear_def clearFn_env)

lemma MP_remove_frame:
  assumes "p \<noteq> mp_filePath m" and "p \<noteq> stateTempPath w m" and "map_of (mp_trackers m) tid = Some tracker"
  shows "files (snd (snd (MP_remove w m tid))) p = files (snd (PT_clear w tracker)) p"
proof -
  let ?w1 = "snd (PT_clear w tracker)"
  have env: "same_env w ?w1" by (rule PT_clear_env)
  have f: "files w' p = files ?w1 p"
    if "writeState ?w1 m' v = (r, w')" and "mp_filePath m' = mp_filePath m" for m' v r w'
    using writeState_frame[of p m' ?w1 v] assms stateTempPath_env[OF env that(2)] that by simp
  show ?thesis
    using f assms(3)
    by (auto simp: MP_remove_def Let_def split: prod.splits sum.splits outcome.splits option.splits)
qed

lemma MP_done_frame:
  assumes "p \<noteq> mp_filePath m" and "p \<noteq> stateTempPath w m"
  shows "files (snd (MP_done w m)) p = files (done_all w (mp_trackers m)) p"
proof -
  let ?w1 = "done_all w (mp_trackers m)"
  have env: "same_env w ?w1" by (rule done_all_env)
  have f: "files w' p = files ?w1 p" if "writeState ?w1 m v = (r, w')" for v r w'
    using writeState_frame[of p m ?w1 v] assms stateTempPath_env[OF env, of m m] that by simp
  show ?thesis
    using f
    by (auto simp: MP_done_def Let_def split: prod.splits sum.splits outcome.splits option.splits)
qed

lemma ex_touches0:
  "tmpdir w = ''/tmp'' \<Longrightarrow> \<not> touches w (pt_config ex_member0) ''/tmp/progress-multi-grp.json''"
  "tmpdir w = ''/tmp'' \<Longrightarrow> \<not> touches w (pt_config ex_member0) ''/tmp/progress-grp-t1.json''"
  "tmpdir w = ''/tmp'' \<Longrightarrow> \<not> touches w (pt_config ex_member1) ''/tmp/progress-multi-grp.json''"
  by (simp_all add: touches_def ex_member_paths tempPath_def)


section \<open>The group mirror\<close>



text \<open>
  Claim C6, as the specification states it, says that a failure to update the mirror is
  reported in the result of the operation. With the aggregate file absent, \<^verbatim>\<open>done\<close>
  finishes the member, cannot read the aggregate, and returns the same success value as
  ever; the aggregate is still absent afterwards.
\<close>

theorem done_hides_mirror_failure:
  "fst (MP_done ex_world_orphan ex_group0) = Return (Inr ()) \<and>
   MP_status (snd (MP_done ex_world_orphan ex_group0)) ex_group0 = Inl MultiNotInitialized \<and>
   PT_get (snd (MP_done ex_world_orphan ex_group0)) ex_member0 = Inr ex_member0_finished"
proof -
  have t: "tmpdir ex_world_orphan = ''/tmp''" by (simp add: ex_world_orphan_def ex_world_def)
  have d: "done_all ex_world_orphan (mp_trackers ex_group0) =
             ex_world_orphan\<lparr>files := [''/tmp/progress-grp-t0.json'' \<mapsto> Json ex_member0_finished]\<rparr>"
    by (simp add: ex_group0_def PT_done_def finish_def ex_member_paths(1)[OF t] Let_def)
       (simp add: readProgress_def ex_world_orphan_def ex_started_def ex_world_def
          writeProgressAtomic_def writeFileSync_def renameSync_def tempPath_def
          ex_member0_finished_def Let_def)
  have r: "readState (ex_world_orphan\<lparr>files := [''/tmp/progress-grp-t0.json'' \<mapsto>
             Json ex_member0_finished]\<rparr>) ex_group0 = Inl MultiNotInitialized"
    by (simp add: readState_def ex_group0_def ex_group_def)
  have 1: "MP_done ex_world_orphan ex_group0 =
             (Return (Inr ()), ex_world_orphan\<lparr>files := [''/tmp/progress-grp-t0.json'' \<mapsto>
                Json ex_member0_finished]\<rparr>)"
    by (simp add: MP_done_def Let_def d r)
  have 2: "PT_get (ex_world_orphan\<lparr>files := [''/tmp/progress-grp-t0.json'' \<mapsto>
             Json ex_member0_finished]\<rparr>) ex_member0 = Inr ex_member0_finished"
    by (simp add: PT_get_def getFn_def ex_member_paths(1) t)
       (simp add: readProgress_def ex_member0_finished_def)
  from 1 2 r show ?thesis by (simp add: MP_status_def)
qed

text \<open>
  Claim C6, amended. For \<^verbatim>\<open>add\<close>, \<^verbatim>\<open>remove\<close> and \<^verbatim>\<open>done\<close>: when the aggregate cannot
  be read after the member step, the mirroring is skipped and the operation returns what
  it returns on success (the handle, or ok), in the environment the member step left.
  In every case the mirroring step changes no file but the aggregate and its temporary
  file, so the member mutation is never rolled back.
\<close>

theorem mirror_failure_is_silent:
  "(\<forall>tracker w1 e.
      PT_new w (member_tracker_config w m config) = (Return tracker, w1) \<and> readState w1 m = Inl e \<longrightarrow>
      MP_add w m config =
        (Return tracker,
         m\<lparr>mp_trackers := AList.update (added_id w config) tracker (mp_trackers m)\<rparr>, w1)) \<and>
   (\<forall>tracker e.
      map_of (mp_trackers m) tid = Some tracker \<and> readState (snd (PT_clear w tracker)) m = Inl e \<longrightarrow>
      MP_remove w m tid =
        (Return (Inr ()), m\<lparr>mp_trackers := AList.delete tid (mp_trackers m)\<rparr>,
         snd (PT_clear w tracker))) \<and>
   (\<forall>e. readState (done_all w (mp_trackers m)) m = Inl e \<longrightarrow>
      MP_done w m = (Return (Inr ()), done_all w (mp_trackers m))) \<and>
   (\<forall>p. p \<noteq> mp_filePath m \<and> p \<noteq> stateTempPath w m \<longrightarrow>
      files (snd (snd (MP_add w m config))) p =
        files (snd (PT_new w (member_tracker_config w m config))) p \<and>
      (\<forall>tracker. map_of (mp_trackers m) tid = Some tracker \<longrightarrow>
         files (snd (snd (MP_remove w m tid))) p = files (snd (PT_clear w tracker)) p) \<and>
      files (snd (MP_done w m)) p = files (done_all w (mp_trackers m)) p)"
proof -
  have 1: "MP_add w m config =
        (Return tracker,
         m\<lparr>mp_trackers := AList.update (added_id w config) tracker (mp_trackers m)\<rparr>, w1)"
    if "PT_new w (member_tracker_config w m config) = (Return tracker, w1)" and "readState w1 m = Inl e"
    for tracker w1 e
    using that
    by (simp add: MP_add_def Let_def member_tracker_config_def added_id_def readState_def)
  have 2: "MP_remove w m tid =
        (Return (Inr ()), m\<lparr>mp_trackers := AList.delete tid (mp_trackers m)\<rparr>,
         snd (PT_clear w tracker))"
    if "map_of (mp_trackers m) tid = Some tracker" and "readState (snd (PT_clear w tracker)) m = Inl e"
    for tracker e
    using that by (simp add: MP_remove_def Let_def readState_def)
  have 3: "MP_done w m = (Return (Inr ()), done_all w (mp_trackers m))"
    if "readState (done_all w (mp_trackers m)) m = Inl e" for e
    using that by (simp add: MP_done_def Let_def)
  from 1 2 3 MP_add_frame MP_remove_frame MP_done_frame show ?thesis by blast
qed

theorem mirror_failure_is_silent_witness:
  "readState (done_all ex_world_orphan (mp_trackers ex_group0)) ex_group0 = Inl MultiNotInitialized \<and>
   MP_done ex_world_orphan ex_group0 =
     (Return (Inr ()), done_all ex_world_orphan (mp_trackers ex_group0)) \<and>
   map_of (mp_trackers ex_group0) ''t0'' = Some ex_member0 \<and>
   readState (snd (PT_clear ex_world_orphan ex_member0)) ex_group0 = Inl MultiNotInitialized \<and>
   MP_remove ex_world_orphan ex_group0 ''t0'' =
     (Return (Inr ()), ex_group0\<lparr>mp_trackers := AList.delete ''t0'' (mp_trackers ex_group0)\<rparr>,
      snd (PT_clear ex_world_orphan ex_member0))"
proof -
  have t: "tmpdir ex_world_orphan = ''/tmp''" by (simp add: ex_world_orphan_def ex_world_def)
  have fp: "mp_filePath ex_group0 = ''/tmp/progress-multi-grp.json''"
    by (simp add: ex_group0_def ex_group_def)
  have n: "files ex_world_orphan ''/tmp/progress-multi-grp.json'' = None"
    by (simp add: ex_world_orphan_def)
  have "list_all (\<lambda>(k, h). \<not> touches ex_world_orphan (pt_config h) ''/tmp/progress-multi-grp.json'')
          (mp_trackers ex_group0)"
    by (simp add: ex_group0_def ex_touches0(1)[OF t])
  from done_all_frame[OF this] n
  have r1: "readState (done_all ex_world_orphan (mp_trackers ex_group0)) ex_group0 =
              Inl MultiNotInitialized"
    by (simp add: readState_def fp)
  have "files (snd (clearFn ex_world_orphan (pt_config ex_member0))) ''/tmp/progress-multi-grp.json'' =
          files ex_world_orphan ''/tmp/progress-multi-grp.json''"
    by (rule clearFn_frame[OF ex_touches0(1)[OF t]])
  with n have r2: "readState (snd (PT_clear ex_world_orphan ex_member0)) ex_group0 =
              Inl MultiNotInitialized"
    by (simp add: readState_def fp PT_clear_def)
  have m: "map_of (mp_trackers ex_group0) ''t0'' = Some ex_member0"
    by (simp add: ex_group0_def)
  from mirror_failure_is_silent[of ex_world_orphan ex_group0 ex_add "''t0''"] r1 r2 m
  show ?thesis by blast
qed

end
